theory Spec2Isabelle
  imports Main
begin

section \<open>Entity model of \<open>src/index.ts\<close>\<close>

text \<open>
  The program is a GraphQL resolver (\<open>JobsResolver\<close>) over three TypeORM entities stored
  in one SQLite database. The database is modelled as a record of three tables, each a
  list of rows in insertion order; every resolver method becomes a function that takes
  the database and returns its result together with the database it leaves behind.

  Entities are modelled as the rows the storage holds: a \<open>ManyToOne\<close> relation is the
  foreign key of the related row, and the inverse \<open>OneToMany\<close> sides (\<open>log_messages\<close>,
  \<open>jobs\<close>), which own no column, are not stored. The columns \<open>id\<close>, \<open>name\<close>,
  \<open>createdAt\<close>, \<open>updatedAt\<close> and \<open>text\<close> occur in several entities (and \<open>id\<close>, \<open>text\<close>
  are taken in Isabelle), so each carries its entity as a prefix.

  Identifiers and priorities are integers. The values of \<open>CreateDateColumn\<close> and
  \<open>UpdateDateColumn\<close> come from the clock of the storage; the clock reading is the
  \<open>now\<close> argument of every operation.
\<close>

type_synonym date = nat

datatype JobStatus = waiting | running | finished

fun JobStatus_value :: "JobStatus \<Rightarrow> int" where
  "JobStatus_value waiting = 100"
| "JobStatus_value running = 200"
| "JobStatus_value finished = 300"

record CreateJobInput =
  cj_name :: string
  cj_inData :: "string option"
  cj_priority :: "int option"

record CreateJobWorkerInput =
  cw_name :: string

record GetJobInput =
  gj_workerId :: int

record CreateLogMessageInput =
  lm_jobId :: int
  lm_workerId :: int
  lm_text :: string

record JobWorker =
  worker_id :: int
  worker_name :: string
  worker_createdAt :: date
  worker_updatedAt :: date

record Job =
  job_id :: int
  job_name :: string
  priority :: int
  status :: JobStatus
  job_createdAt :: date
  job_updatedAt :: date
  inData :: "string option"
  outData :: "string option"
  job_worker :: "int option"

record LogMessage =
  log_id :: int
  log_text :: string
  log_createdAt :: date
  log_updatedAt :: date
  log_job_worker :: int
  log_job :: int

record db =
  workers :: "JobWorker list"
  jobs :: "Job list"
  log_messages :: "LogMessage list"

definition empty_db :: db where
  "empty_db = \<lparr>workers = [], jobs = [], log_messages = []\<rparr>"

text \<open>
  \<open>new ApolloError(`${entity} ${ident} not found`, code)\<close>: the only errors the resolver
  raises. The message is kept in its parts; \<open>code\<close> is \<open>None\<close> where the source passes
  no second argument.
\<close>

datatype error = ApolloError (entity: string) (ident: int) (code: "string option")

subsection \<open>Storage access\<close>

text \<open>
  \<open>PrimaryGeneratedColumn\<close>: the storage hands out the next identifier of a table, one
  more than the largest in use (no row is ever deleted), starting from 1.
\<close>

definition next_id :: "int list \<Rightarrow> int" where
  "next_id ids = foldr max ids 0 + 1"

text \<open>\<open>findOne(JobWorker, id)\<close> and \<open>findOne(Job, id)\<close>: the row with that key, if any.\<close>

definition findOne_JobWorker :: "db \<Rightarrow> int \<Rightarrow> JobWorker option" where
  "findOne_JobWorker s i = find (\<lambda>w. worker_id w = i) (workers s)"

definition findOne_Job :: "db \<Rightarrow> int \<Rightarrow> Job option" where
  "findOne_Job s i = find (\<lambda>j. job_id j = i) (jobs s)"

text \<open>
  \<open>findOne(Job, {where: {status: JobStatus.waiting}, ...})\<close>: the query names no order,
  so the storage answers with the first row of the table that matches.
\<close>

definition findOne_Job_where_status :: "db \<Rightarrow> JobStatus \<Rightarrow> Job option" where
  "findOne_Job_where_status s st = find (\<lambda>j. status j = st) (jobs s)"

text \<open>\<open>job.save()\<close> on a loaded row: an update of the row with that key.\<close>

definition save_Job :: "Job \<Rightarrow> db \<Rightarrow> db" where
  "save_Job j s = s\<lparr>jobs := map (\<lambda>r. if job_id r = job_id j then j else r) (jobs s)\<rparr>"

text \<open>The JavaScript \<open>x || d\<close> on an optional number: \<open>undefined\<close> and \<open>0\<close> are falsy.\<close>

definition or_default :: "int option \<Rightarrow> int \<Rightarrow> int" where
  "or_default x d = (case x of None \<Rightarrow> d | Some v \<Rightarrow> if v = 0 then d else v)"

section \<open>The resolver\<close>

definition jobs_query :: "db \<Rightarrow> Job list" where
  "jobs_query s = jobs s"

text \<open>
  \<open>getJob\<close>: the promise is rejected when the worker is missing, resolved with \<open>null\<close>
  when no job is waiting (the method then returns nothing, \<open>Inr None\<close>), and resolved
  with the saved job otherwise.
\<close>

definition getJob :: "GetJobInput \<Rightarrow> date \<Rightarrow> db \<Rightarrow> (error + Job option) \<times> db" where
  "getJob data now s =
     (case findOne_JobWorker s (gj_workerId data) of
        None \<Rightarrow> (Inl (ApolloError ''JobWorker'' (gj_workerId data) None), s)
      | Some jw \<Rightarrow>
          (case findOne_Job_where_status s waiting of
             None \<Rightarrow> (Inr None, s)
           | Some job \<Rightarrow>
               (let job' = job\<lparr>job_worker := Some (worker_id jw), status := running,
                                job_updatedAt := now\<rparr>
                in (Inr (Some job'), save_Job job' s))))"

definition createJobWorker :: "CreateJobWorkerInput \<Rightarrow> date \<Rightarrow> db \<Rightarrow> JobWorker \<times> db" where
  "createJobWorker data now s =
     (let jw = \<lparr>worker_id = next_id (map worker_id (workers s)), worker_name = cw_name data,
                worker_createdAt = now, worker_updatedAt = now\<rparr>
      in (jw, s\<lparr>workers := workers s @ [jw]\<rparr>))"

definition createJob :: "CreateJobInput \<Rightarrow> date \<Rightarrow> db \<Rightarrow> Job \<times> db" where
  "createJob data now s =
     (let job = \<lparr>job_id = next_id (map job_id (jobs s)), job_name = cj_name data,
                 priority = or_default (cj_priority data) 1000, status = waiting,
                 job_createdAt = now, job_updatedAt = now, inData = cj_inData data,
                 outData = None, job_worker = None\<rparr>
      in (job, s\<lparr>jobs := jobs s @ [job]\<rparr>))"

definition logMessages :: "db \<Rightarrow> LogMessage list" where
  "logMessages s = log_messages s"

definition createLogMessage ::
  "CreateLogMessageInput \<Rightarrow> date \<Rightarrow> db \<Rightarrow> (error + LogMessage) \<times> db" where
  "createLogMessage data now s =
     (let job = findOne_Job s (lm_jobId data);
          jobWorker = findOne_JobWorker s (lm_workerId data)
      in case job of
           None \<Rightarrow> (Inl (ApolloError ''Job'' (lm_jobId data) (Some ''404'')), s)
         | Some j \<Rightarrow>
             (case jobWorker of
                None \<Rightarrow> (Inl (ApolloError ''Worker'' (lm_workerId data) (Some ''404'')), s)
              | Some w \<Rightarrow>
                  (let message = \<lparr>log_id = next_id (map log_id (log_messages s)),
                                  log_text = lm_text data, log_createdAt = now,
                                  log_updatedAt = now, log_job_worker = worker_id w,
                                  log_job = job_id j\<rparr>
                   in (Inr message, s\<lparr>log_messages := log_messages s @ [message]\<rparr>))))"

subsection \<open>All operations of the resolver\<close>

datatype request =
    Jobs
  | GetJob GetJobInput
  | CreateJobWorker CreateJobWorkerInput
  | CreateJob CreateJobInput
  | LogMessages
  | CreateLogMessage CreateLogMessageInput

text \<open>The database a request leaves behind (the two queries write nothing).\<close>

fun resolve :: "request \<Rightarrow> date \<Rightarrow> db \<Rightarrow> db" where
  "resolve Jobs now s = s"
| "resolve (GetJob data) now s = snd (getJob data now s)"
| "resolve (CreateJobWorker data) now s = snd (createJobWorker data now s)"
| "resolve (CreateJob data) now s = snd (createJob data now s)"
| "resolve LogMessages now s = s"
| "resolve (CreateLogMessage data) now s = snd (createLogMessage data now s)"

text \<open>The databases the resolver can produce, starting from the empty one.\<close>

inductive reachable :: "db \<Rightarrow> bool" where
  reachable_empty: "reachable empty_db"
| reachable_resolve: "reachable s \<Longrightarrow> reachable (resolve rq now s)"

fun run :: "(request \<times> date) list \<Rightarrow> db \<Rightarrow> db" where
  "run [] s = s"
| "run ((rq, now) # rest) s = run rest (resolve rq now s)"

section \<open>Properties of jobs and databases\<close>

text \<open>The keys of the job table are strictly ascending (so no two rows share a key).\<close>

definition ids_ascending :: "db \<Rightarrow> bool" where
  "ids_ascending s = sorted_wrt (<) (map job_id (jobs s))"

text \<open>One move of the lifecycle \<open>waiting \<rightarrow> running \<rightarrow> finished\<close>, or none.\<close>

fun status_step :: "JobStatus \<Rightarrow> JobStatus \<Rightarrow> bool" where
  "status_step waiting waiting = True"
| "status_step waiting running = True"
| "status_step running running = True"
| "status_step running finished = True"
| "status_step finished finished = True"
| "status_step _ _ = False"

text \<open>A job has an owner exactly when it is running or finished.\<close>

definition owner_matches_status :: "Job \<Rightarrow> bool" where
  "owner_matches_status j =
     ((job_worker j \<noteq> None) = (status j = running \<or> status j = finished))"

text \<open>
  The selection order of the specification, written from its words: ascending priority
  value, then earliest creation timestamp, then ascending identifier.
\<close>

definition spec_before :: "Job \<Rightarrow> Job \<Rightarrow> bool" where
  "spec_before j k =
     (priority j < priority k \<or>
      (priority j = priority k \<and>
       (job_createdAt j < job_createdAt k \<or>
        (job_createdAt j = job_createdAt k \<and> job_id j < job_id k))))"

subsection \<open>Example databases\<close>

definition worker1 :: JobWorker where
  "worker1 = \<lparr>worker_id = 1, worker_name = ''w1'', worker_createdAt = 1, worker_updatedAt = 1\<rparr>"

definition job_build :: Job where
  "job_build = \<lparr>job_id = 1, job_name = ''build'', priority = 10, status = waiting,
                 job_createdAt = 2, job_updatedAt = 2, inData = None, outData = None,
                 job_worker = None\<rparr>"

definition job_deploy :: Job where
  "job_deploy = \<lparr>job_id = 2, job_name = ''deploy'', priority = 5, status = waiting,
                  job_createdAt = 3, job_updatedAt = 3, inData = Some ''x'', outData = None,
                  job_worker = None\<rparr>"

text \<open>
  One worker and two waiting jobs; the job created second has the lower priority value.
  It is the database left by \<open>requests_two_waiting\<close>.
\<close>

definition db_two_waiting :: db where
  "db_two_waiting = \<lparr>workers = [worker1], jobs = [job_build, job_deploy], log_messages = []\<rparr>"

definition requests_two_waiting :: "(request \<times> date) list" where
  "requests_two_waiting =
     [(CreateJobWorker \<lparr>cw_name = ''w1''\<rparr>, 1),
      (CreateJob \<lparr>cj_name = ''build'', cj_inData = None, cj_priority = Some 10\<rparr>, 2),
      (CreateJob \<lparr>cj_name = ''deploy'', cj_inData = Some ''x'', cj_priority = Some 5\<rparr>, 3)]"

text \<open>The same database after the worker has claimed both jobs.\<close>

definition db_none_waiting :: db where
  "db_none_waiting =
     \<lparr>workers = [worker1],
      jobs = [job_build\<lparr>job_worker := Some 1, status := running, job_updatedAt := 4\<rparr>,
              job_deploy\<lparr>job_worker := Some 1, status := running, job_updatedAt := 5\<rparr>],
      log_messages = []\<rparr>"

section \<open>Auxiliary facts\<close>

lemmas resolver_defs = getJob_def createJob_def createJobWorker_def createLogMessage_def save_Job_def
  findOne_Job_def findOne_JobWorker_def findOne_Job_where_status_def next_id_def or_default_def Let_def
lemmas example_defs = db_two_waiting_def worker1_def job_build_def job_deploy_def empty_db_def

text \<open>The example databases are reachable: they are what these requests leave.\<close>

lemma run_requests_two_waiting: "run requests_two_waiting empty_db = db_two_waiting"
  by (simp add: resolver_defs example_defs requests_two_waiting_def)

lemma run_claims_none_waiting:
  "run [(GetJob \<lparr>gj_workerId = 1\<rparr>, 4), (GetJob \<lparr>gj_workerId = 1\<rparr>, 5)] db_two_waiting =
     db_none_waiting"
  by (simp add: resolver_defs example_defs db_none_waiting_def)

lemma foldr_max_ge: "x \<in> set ids \<Longrightarrow> x \<le> foldr max ids (0::int)"
  by (induction ids) auto

lemma next_id_fresh: "x \<in> set ids \<Longrightarrow> x < next_id ids"
  using foldr_max_ge [of x ids] by (simp add: next_id_def)

lemma find_first_least:
  "sorted_wrt (<) (map f xs) \<Longrightarrow> find P xs = Some x \<Longrightarrow> y \<in> set xs \<Longrightarrow> P y \<Longrightarrow> f x \<le> (f y :: int)"
  by (induction xs) (auto split: if_splits)

lemma find_Some_mem: "find P xs = Some x \<Longrightarrow> x \<in> set xs \<and> P x"
  by (induction xs) (auto split: if_splits)

lemma find_None_none: "find P xs = None \<Longrightarrow> x \<in> set xs \<Longrightarrow> \<not> P x"
  by (induction xs) (auto split: if_splits)

lemma find_exists: "x \<in> set xs \<Longrightarrow> P x \<Longrightarrow> \<exists>y. find P xs = Some y"
  by (induction xs) auto

lemma run_reachable: "reachable s \<Longrightarrow> reachable (run rs s)"
  by (induction rs s rule: run.induct) (simp_all add: reachable_resolve)

lemma map_key_update:
  "f j' = k \<Longrightarrow> map f (map (\<lambda>r. if f r = k then j' else r) xs) = map f xs"
  by (induction xs) auto

lemma save_Job_ids: "map job_id (jobs (save_Job j s)) = map job_id (jobs s)"
  by (simp add: save_Job_def map_key_update del: map_map)

lemma sorted_wrt_snoc_fresh:
  "sorted_wrt (<) ids \<Longrightarrow> sorted_wrt (<) (ids @ [next_id ids])"
  by (auto simp: sorted_wrt_append dest: next_id_fresh)

lemma resolve_ids_ascending: "ids_ascending s \<Longrightarrow> ids_ascending (resolve rq now s)"
proof (cases rq)
  case (GetJob data)
  assume a: "ids_ascending s"
  show ?thesis
    using a unfolding GetJob ids_ascending_def
    by (simp add: getJob_def Let_def save_Job_ids split: option.splits)
next
  case (CreateJob data)
  assume a: "ids_ascending s"
  show ?thesis
    using a sorted_wrt_snoc_fresh[of "map job_id (jobs s)"] unfolding CreateJob ids_ascending_def
    by (simp add: createJob_def Let_def)
qed (auto simp: ids_ascending_def createJobWorker_def createLogMessage_def Let_def split: option.splits)

lemma reachable_ids_ascending: "reachable s \<Longrightarrow> ids_ascending s"
proof (induction rule: reachable.induct)
  case reachable_empty
  show ?case by (simp add: ids_ascending_def empty_db_def)
next
  case (reachable_resolve s rq now)
  then show ?case by (simp add: resolve_ids_ascending)
qed

subsection \<open>What a request does to the job table\<close>

text \<open>
  A request leaves the job table as it is, appends one new waiting job with a fresh key,
  or rewrites the row of one waiting job into a running job with an owner.
\<close>

lemma strict_sorted_key_inj:
  "sorted_wrt (<) (map f xs) \<Longrightarrow> x \<in> set xs \<Longrightarrow> y \<in> set xs \<Longrightarrow> f x = (f y :: int) \<Longrightarrow> x = y"
  by (induction xs) auto

lemma status_step_refl: "status_step a a"
  by (cases a) simp_all

lemma resolve_jobs_cases:
  "jobs (resolve rq now s) = jobs s \<or>
   (\<exists>n. job_id n = next_id (map job_id (jobs s)) \<and> status n = waiting \<and>
        job_worker n = None \<and> outData n = None \<and>
        jobs (resolve rq now s) = jobs s @ [n]) \<or>
   (\<exists>j w. j \<in> set (jobs s) \<and> status j = waiting \<and>
        jobs (resolve rq now s) =
          map (\<lambda>r. if job_id r = job_id j
                    then j\<lparr>job_worker := Some w, status := running, job_updatedAt := now\<rparr>
                    else r) (jobs s))"
proof (cases rq)
  case (GetJob data)
  show ?thesis
  proof (cases "findOne_JobWorker s (gj_workerId data)")
    case None
    then show ?thesis by (simp add: GetJob getJob_def)
  next
    case (Some w)
    show ?thesis
    proof (cases "findOne_Job_where_status s waiting")
      case None
      with Some show ?thesis by (simp add: GetJob getJob_def)
    next
      case (Some j)
      then have "j \<in> set (jobs s) \<and> status j = waiting"
        using find_Some_mem [of "\<lambda>j. status j = waiting" "jobs s" j]
        by (simp add: findOne_Job_where_status_def)
      moreover have "jobs (resolve rq now s) =
          map (\<lambda>r. if job_id r = job_id j
                    then j\<lparr>job_worker := Some (worker_id w), status := running, job_updatedAt := now\<rparr>
                    else r) (jobs s)"
        using Some \<open>findOne_JobWorker s (gj_workerId data) = Some w\<close>
        by (simp add: GetJob getJob_def save_Job_def Let_def)
      ultimately show ?thesis by blast
    qed
  qed
next
  case (CreateJob data)
  then show ?thesis by (simp add: createJob_def Let_def)
next
  case (CreateLogMessage data)
  then show ?thesis by (simp add: createLogMessage_def Let_def split: option.splits)
qed (simp_all add: createJobWorker_def Let_def)

lemma resolve_keeps_jobs:
  assumes "j \<in> set (jobs s)"
  shows "\<exists>j'\<in>set (jobs (resolve rq now s)). job_id j' = job_id j"
proof -
  from resolve_jobs_cases [of rq now s] show ?thesis
  proof (elim disjE exE conjE)
    assume "jobs (resolve rq now s) = jobs s"
    with assms show ?thesis by auto
  next
    fix n
    assume "jobs (resolve rq now s) = jobs s @ [n]"
    with assms show ?thesis by auto
  next
    fix c :: Job and w
    let ?f = "\<lambda>r. if job_id r = job_id c
                   then c\<lparr>job_worker := Some w, status := running, job_updatedAt := now\<rparr>
                   else r"
    assume "jobs (resolve rq now s) = map ?f (jobs s)"
    with assms have "?f j \<in> set (jobs (resolve rq now s))" by simp
    moreover have "job_id (?f j) = job_id j" by simp
    ultimately show ?thesis by blast
  qed
qed

lemma resolve_job_step:
  assumes asc: "ids_ascending s" and j: "j \<in> set (jobs s)"
    and j': "j' \<in> set (jobs (resolve rq now s))" and same: "job_id j' = job_id j"
  shows "status_step (status j) (status j') \<and> priority j' = priority j \<and>
         inData j' = inData j \<and> job_name j' = job_name j \<and> job_createdAt j' = job_createdAt j"
proof -
  note inj = strict_sorted_key_inj [OF asc [unfolded ids_ascending_def]]
  from resolve_jobs_cases [of rq now s] show ?thesis
  proof (elim disjE exE conjE)
    assume "jobs (resolve rq now s) = jobs s"
    with j' have "j' \<in> set (jobs s)" by simp
    with inj [OF _ j same] have "j' = j" by simp
    then show ?thesis by (simp add: status_step_refl)
  next
    fix n
    assume n: "job_id n = next_id (map job_id (jobs s))"
      and js: "jobs (resolve rq now s) = jobs s @ [n]"
    have "job_id j < job_id n"
      using n j next_id_fresh [of "job_id j" "map job_id (jobs s)"] by simp
    with j' js same have "j' \<in> set (jobs s)" by auto
    with inj [OF _ j same] have "j' = j" by simp
    then show ?thesis by (simp add: status_step_refl)
  next
    fix c w
    assume c: "c \<in> set (jobs s)" and cw: "status c = waiting"
      and js: "jobs (resolve rq now s) =
          map (\<lambda>r. if job_id r = job_id c
                    then c\<lparr>job_worker := Some w, status := running, job_updatedAt := now\<rparr>
                    else r) (jobs s)"
    from j' js obtain r where r: "r \<in> set (jobs s)"
      and j'r: "j' = (if job_id r = job_id c
                      then c\<lparr>job_worker := Some w, status := running, job_updatedAt := now\<rparr>
                      else r)"
      by auto
    show ?thesis
    proof (cases "job_id r = job_id c")
      case True
      with j'r have e: "j' = c\<lparr>job_worker := Some w, status := running, job_updatedAt := now\<rparr>"
        by simp
      then have "job_id c = job_id j" using same by simp
      with inj [OF c j] have "c = j" by simp
      with e cw show ?thesis by simp
    next
      case False
      with j'r have "j' = r" by simp
      with inj [OF _ j same] r have "j' = j" by simp
      then show ?thesis by (simp add: status_step_refl)
    qed
  qed
qed

lemma resolve_owner_matches_status:
  assumes "\<forall>j\<in>set (jobs s). owner_matches_status j"
    and "j' \<in> set (jobs (resolve rq now s))"
  shows "owner_matches_status j'"
  using resolve_jobs_cases [of rq now s] assms
  by (elim disjE exE conjE) (auto simp: owner_matches_status_def split: if_splits)

lemma resolve_never_finishes:
  assumes "\<forall>j\<in>set (jobs s). status j \<noteq> finished \<and> outData j = None"
    and "j' \<in> set (jobs (resolve rq now s))"
  shows "status j' \<noteq> finished \<and> outData j' = None"
  using resolve_jobs_cases [of rq now s] assms
  by (elim disjE exE conjE) (auto split: if_splits)

lemma reachable_owner_matches_status:
  "reachable s \<Longrightarrow> j \<in> set (jobs s) \<Longrightarrow> owner_matches_status j"
proof (induction arbitrary: j rule: reachable.induct)
  case reachable_empty
  then show ?case by (simp add: empty_db_def)
next
  case (reachable_resolve s rq now)
  then show ?case using resolve_owner_matches_status [of s j rq now] by blast
qed

text \<open>
  Two calls of \<open>getJob\<close>, one after the other, never return the same job: the first call
  leaves its job \<open>running\<close>, and the second looks among the waiting jobs only. (This is
  about calls in sequence; it says nothing about calls that overlap in time.)
\<close>

lemma getJob_twice_distinct:
  assumes "getJob d1 t1 s = (Inr (Some j1), s1)" and "getJob d2 t2 s1 = (Inr (Some j2), s2)"
  shows "job_id j1 \<noteq> job_id j2"
proof -
  obtain w1 where w1: "findOne_JobWorker s (gj_workerId d1) = Some w1"
    using assms(1) by (cases "findOne_JobWorker s (gj_workerId d1)") (auto simp: getJob_def)
  obtain w2 where w2: "findOne_JobWorker s1 (gj_workerId d2) = Some w2"
    using assms(2) by (cases "findOne_JobWorker s1 (gj_workerId d2)") (auto simp: getJob_def)
  obtain j where j: "findOne_Job_where_status s waiting = Some j"
    using assms(1) w1 by (cases "findOne_Job_where_status s waiting") (auto simp: getJob_def)
  obtain k where k: "findOne_Job_where_status s1 waiting = Some k"
    using assms(2) w2 by (cases "findOne_Job_where_status s1 waiting") (auto simp: getJob_def)
  have j1: "j1 = j\<lparr>job_worker := Some (worker_id w1), status := running, job_updatedAt := t1\<rparr>"
    and s1: "s1 = save_Job j1 s"
    using assms(1) w1 j by (auto simp: getJob_def Let_def)
  have j2: "job_id j2 = job_id k"
    using assms(2) w2 k by (auto simp: getJob_def Let_def)
  have km: "k \<in> set (jobs s1) \<and> status k = waiting"
    using k find_Some_mem [of "\<lambda>j. status j = waiting" "jobs s1" k]
    by (simp add: findOne_Job_where_status_def)
  then have "job_id k \<noteq> job_id j1"
    using s1 j1 by (auto simp: save_Job_def split: if_splits)
  with j2 show ?thesis by simp
qed

text \<open>What \<open>createJob\<close> builds, for a priority that is omitted or not zero.\<close>

lemma createJob_result:
  "status (fst (createJob data now s)) = waiting \<and>
   job_worker (fst (createJob data now s)) = None \<and>
   job_name (fst (createJob data now s)) = cj_name data \<and>
   inData (fst (createJob data now s)) = cj_inData data \<and>
   jobs (snd (createJob data now s)) = jobs s @ [fst (createJob data now s)] \<and>
   (cj_priority data = None \<longrightarrow> priority (fst (createJob data now s)) = 1000) \<and>
   (\<forall>p. cj_priority data = Some p \<and> p \<noteq> 0 \<longrightarrow> priority (fst (createJob data now s)) = p)"
  by (simp add: createJob_def or_default_def Let_def)

section \<open>Claiming a job: which job is selected\<close>

text \<open>
  Claim C1, as stated, fails. In \<open>db_two_waiting\<close> both jobs are waiting and \<open>job_deploy\<close>
  comes before \<open>job_build\<close> in the order of the specification (priority 5 against 10),
  yet \<open>getJob\<close> returns \<open>job_build\<close>: the query of \<open>getJob\<close> names no order and never
  reads \<open>priority\<close> or \<open>createdAt\<close>.
\<close>

theorem getJob_ignores_priority_counterexample:
  "fst (getJob \<lparr>gj_workerId = 1\<rparr> 4 db_two_waiting) =
     Inr (Some (job_build\<lparr>job_worker := Some 1, status := running, job_updatedAt := 4\<rparr>)) \<and>
   job_deploy \<in> set (jobs db_two_waiting) \<and> status job_deploy = waiting \<and>
   spec_before job_deploy job_build \<and> \<not> spec_before job_build job_deploy"
  by (simp add: resolver_defs example_defs spec_before_def)

text \<open>
  Claim C1, amended. When the keys of the job table are ascending (as they are in every
  reachable database, \<open>reachable_ids_ascending\<close>), the worker exists and some job is
  waiting, \<open>getJob\<close> returns the waiting job with the least identifier, whatever the
  priorities and creation timestamps are.
\<close>

theorem getJob_selects_least_id:
  assumes "ids_ascending s"
    and "findOne_JobWorker s (gj_workerId data) = Some w"
    and "\<exists>j\<in>set (jobs s). status j = waiting"
  shows "\<exists>j\<in>set (jobs s). status j = waiting \<and>
           (\<forall>k\<in>set (jobs s). status k = waiting \<longrightarrow> job_id j \<le> job_id k) \<and>
           fst (getJob data now s) =
             Inr (Some (j\<lparr>job_worker := Some (gj_workerId data), status := running,
                          job_updatedAt := now\<rparr>))"
proof -
  have wi: "worker_id w = gj_workerId data"
    using assms(2) find_Some_mem [of "\<lambda>w. worker_id w = gj_workerId data" "workers s" w]
    by (simp add: findOne_JobWorker_def)
  obtain j where j: "find (\<lambda>j. status j = waiting) (jobs s) = Some j"
    using assms(3) find_exists [of _ "jobs s" "\<lambda>j. status j = waiting"] by blast
  have jm: "j \<in> set (jobs s) \<and> status j = waiting"
    using j by (rule find_Some_mem)
  have least: "\<forall>k\<in>set (jobs s). status k = waiting \<longrightarrow> job_id j \<le> job_id k"
    using assms(1) j find_first_least [of job_id "jobs s" "\<lambda>j. status j = waiting" j]
    by (auto simp: ids_ascending_def)
  have "fst (getJob data now s) =
          Inr (Some (j\<lparr>job_worker := Some (gj_workerId data), status := running,
                       job_updatedAt := now\<rparr>))"
    using assms(2) j wi by (simp add: getJob_def findOne_Job_where_status_def Let_def)
  with jm least show ?thesis by blast
qed

theorem getJob_selects_least_id_witness:
  "ids_ascending db_two_waiting \<and>
   findOne_JobWorker db_two_waiting (gj_workerId \<lparr>gj_workerId = 1\<rparr>) = Some worker1 \<and>
   (\<exists>j\<in>set (jobs db_two_waiting). status j = waiting) \<and>
   (\<exists>j\<in>set (jobs db_two_waiting). status j = waiting \<and>
      (\<forall>k\<in>set (jobs db_two_waiting). status k = waiting \<longrightarrow> job_id j \<le> job_id k) \<and>
      fst (getJob \<lparr>gj_workerId = 1\<rparr> 4 db_two_waiting) =
        Inr (Some (j\<lparr>job_worker := Some 1, status := running, job_updatedAt := 4\<rparr>)))"
proof -
  have h1: "ids_ascending db_two_waiting"
    by (simp add: ids_ascending_def example_defs)
  have h2: "findOne_JobWorker db_two_waiting (gj_workerId \<lparr>gj_workerId = 1\<rparr>) = Some worker1"
    by (simp add: findOne_JobWorker_def example_defs)
  have h3: "\<exists>j\<in>set (jobs db_two_waiting). status j = waiting"
    by (simp add: example_defs)
  show ?thesis
    using h1 h2 h3 getJob_selects_least_id [OF h1 h2 h3, of 4] by simp
qed

text \<open>
  Claim C4. When \<open>getJob\<close> is called with an existing worker and returns a job, that job
  is \<open>running\<close> and owned by the given worker; it is a job that was waiting, with only
  \<open>job_worker\<close>, \<open>status\<close> and \<open>updatedAt\<close> rewritten, and the database differs from the
  one before only in the row of that job.
\<close>

theorem getJob_returns_running_job_of_worker:
  assumes "findOne_JobWorker s (gj_workerId data) = Some w"
    and "getJob data now s = (Inr (Some j'), s')"
  shows "status j' = running \<and> job_worker j' = Some (gj_workerId data) \<and>
         (\<exists>j\<in>set (jobs s). status j = waiting \<and>
            j' = j\<lparr>job_worker := Some (gj_workerId data), status := running,
                   job_updatedAt := now\<rparr> \<and>
            s' = s\<lparr>jobs := map (\<lambda>r. if job_id r = job_id j then j' else r) (jobs s)\<rparr>)"
proof -
  have wi: "worker_id w = gj_workerId data"
    using assms(1) find_Some_mem [of "\<lambda>w. worker_id w = gj_workerId data" "workers s" w]
    by (simp add: findOne_JobWorker_def)
  obtain j where j: "findOne_Job_where_status s waiting = Some j"
    using assms by (cases "findOne_Job_where_status s waiting") (auto simp: getJob_def)
  have jm: "j \<in> set (jobs s) \<and> status j = waiting"
    using j find_Some_mem [of "\<lambda>j. status j = waiting" "jobs s" j]
    by (simp add: findOne_Job_where_status_def)
  have r: "j' = j\<lparr>job_worker := Some (gj_workerId data), status := running, job_updatedAt := now\<rparr>"
    and s': "s' = save_Job j' s"
    using assms j wi by (auto simp: getJob_def Let_def)
  have "job_id j' = job_id j" using r by simp
  with s' have "s' = s\<lparr>jobs := map (\<lambda>r. if job_id r = job_id j then j' else r) (jobs s)\<rparr>"
    by (simp add: save_Job_def)
  with r jm show ?thesis by auto
qed

theorem getJob_returns_running_job_of_worker_witness:
  "findOne_JobWorker db_two_waiting (gj_workerId \<lparr>gj_workerId = 1\<rparr>) = Some worker1 \<and>
   getJob \<lparr>gj_workerId = 1\<rparr> 4 db_two_waiting =
     (Inr (Some (job_build\<lparr>job_worker := Some 1, status := running, job_updatedAt := 4\<rparr>)),
      db_two_waiting\<lparr>jobs := [job_build\<lparr>job_worker := Some 1, status := running,
                                          job_updatedAt := 4\<rparr>, job_deploy]\<rparr>) \<and>
   status (job_build\<lparr>job_worker := Some 1, status := running, job_updatedAt := 4\<rparr>) = running \<and>
   job_worker (job_build\<lparr>job_worker := Some 1, status := running, job_updatedAt := 4\<rparr>) =
     Some (gj_workerId \<lparr>gj_workerId = 1\<rparr>)"
proof -
  let ?j = "job_build\<lparr>job_worker := Some 1, status := running, job_updatedAt := 4\<rparr>"
  let ?s = "db_two_waiting\<lparr>jobs := [?j, job_deploy]\<rparr>"
  have h1: "findOne_JobWorker db_two_waiting (gj_workerId \<lparr>gj_workerId = 1\<rparr>) = Some worker1"
    by (simp add: findOne_JobWorker_def example_defs)
  have h2: "getJob \<lparr>gj_workerId = 1\<rparr> 4 db_two_waiting = (Inr (Some ?j), ?s)"
    by (simp add: resolver_defs example_defs)
  show ?thesis
    using h1 h2 getJob_returns_running_job_of_worker [OF h1 h2] by simp
qed


section \<open>Claiming a job: failure and empty outcomes\<close>

text \<open>
  Claim C5. When the \<open>workerId\<close> of \<open>getJob\<close> references no worker, the call fails with
  the error \<open>JobWorker <id> not found\<close> (raised without an error code) and the database
  it leaves is the database it found: no job has been touched.
\<close>

theorem getJob_unknown_worker:
  assumes "findOne_JobWorker s (gj_workerId data) = None"
  shows "getJob data now s = (Inl (ApolloError ''JobWorker'' (gj_workerId data) None), s)"
  using assms by (simp add: getJob_def)

theorem getJob_unknown_worker_witness:
  "findOne_JobWorker db_two_waiting (gj_workerId \<lparr>gj_workerId = 7\<rparr>) = None \<and>
   getJob \<lparr>gj_workerId = 7\<rparr> 9 db_two_waiting =
     (Inl (ApolloError ''JobWorker'' 7 None), db_two_waiting)"
proof -
  have h: "findOne_JobWorker db_two_waiting (gj_workerId \<lparr>gj_workerId = 7\<rparr>) = None"
    by (simp add: findOne_JobWorker_def example_defs)
  show ?thesis using h getJob_unknown_worker [OF h, of 9] by simp
qed

text \<open>
  Claim C6. When the worker exists and no job is waiting, \<open>getJob\<close> returns the empty
  result \<open>Inr None\<close> and changes nothing; the empty result is a value of the right
  summand, so it differs from every error \<open>Inl e\<close>.
\<close>

theorem getJob_no_waiting_job:
  assumes "findOne_JobWorker s (gj_workerId data) = Some w"
    and "\<forall>j\<in>set (jobs s). status j \<noteq> waiting"
  shows "getJob data now s = (Inr None, s) \<and> (\<forall>e. fst (getJob data now s) \<noteq> Inl e)"
proof -
  have "findOne_Job_where_status s waiting = None"
    using assms(2) by (auto simp: findOne_Job_where_status_def find_None_iff)
  with assms(1) show ?thesis by (simp add: getJob_def)
qed

theorem getJob_no_waiting_job_witness:
  "findOne_JobWorker db_none_waiting (gj_workerId \<lparr>gj_workerId = 1\<rparr>) = Some worker1 \<and>
   \<not> (\<exists>j\<in>set (jobs db_none_waiting). status j = waiting) \<and>
   getJob \<lparr>gj_workerId = 1\<rparr> 6 db_none_waiting = (Inr None, db_none_waiting) \<and>
   (\<forall>e. fst (getJob \<lparr>gj_workerId = 1\<rparr> 6 db_none_waiting) \<noteq> Inl e)"
proof -
  have h1: "findOne_JobWorker db_none_waiting (gj_workerId \<lparr>gj_workerId = 1\<rparr>) = Some worker1"
    by (simp add: findOne_JobWorker_def example_defs db_none_waiting_def)
  have h2: "\<forall>j\<in>set (jobs db_none_waiting). status j \<noteq> waiting"
    by (simp add: example_defs db_none_waiting_def)
  show ?thesis using h1 h2 getJob_no_waiting_job [OF h1 h2, of 6] by blast
qed

section \<open>Appending a log message\<close>

text \<open>
  Claim C7. \<open>createLogMessage\<close> looks up both the job and the worker. A missing job gives
  the error \<open>Job <jobId> not found\<close>; an existing job with a missing worker gives
  \<open>Worker <workerId> not found\<close>; in both cases the database is unchanged, so no log
  message has been created. When both exist, one new log message with a fresh key is
  appended, linked to that job and that worker, and the job and worker tables are as
  before.
\<close>

theorem createLogMessage_validates_references:
  "(findOne_Job s (lm_jobId data) = None \<longrightarrow>
      createLogMessage data now s =
        (Inl (ApolloError ''Job'' (lm_jobId data) (Some ''404'')), s)) \<and>
   (findOne_Job s (lm_jobId data) \<noteq> None \<and> findOne_JobWorker s (lm_workerId data) = None \<longrightarrow>
      createLogMessage data now s =
        (Inl (ApolloError ''Worker'' (lm_workerId data) (Some ''404'')), s)) \<and>
   (findOne_Job s (lm_jobId data) \<noteq> None \<and> findOne_JobWorker s (lm_workerId data) \<noteq> None \<longrightarrow>
      (\<exists>m. createLogMessage data now s = (Inr m, s\<lparr>log_messages := log_messages s @ [m]\<rparr>) \<and>
           log_job m = lm_jobId data \<and> log_job_worker m = lm_workerId data \<and>
           log_text m = lm_text data \<and> log_id m \<notin> log_id ` set (log_messages s) \<and>
           jobs (snd (createLogMessage data now s)) = jobs s \<and>
           workers (snd (createLogMessage data now s)) = workers s))"
proof (intro conjI impI)
  assume "findOne_Job s (lm_jobId data) = None"
  then show "createLogMessage data now s =
        (Inl (ApolloError ''Job'' (lm_jobId data) (Some ''404'')), s)"
    by (simp add: createLogMessage_def)
next
  assume "findOne_Job s (lm_jobId data) \<noteq> None \<and> findOne_JobWorker s (lm_workerId data) = None"
  then show "createLogMessage data now s =
        (Inl (ApolloError ''Worker'' (lm_workerId data) (Some ''404'')), s)"
    by (auto simp: createLogMessage_def)
next
  assume a: "findOne_Job s (lm_jobId data) \<noteq> None \<and> findOne_JobWorker s (lm_workerId data) \<noteq> None"
  then obtain j w where j: "findOne_Job s (lm_jobId data) = Some j"
    and w: "findOne_JobWorker s (lm_workerId data) = Some w" by auto
  have ji: "job_id j = lm_jobId data"
    using j find_Some_mem [of "\<lambda>j. job_id j = lm_jobId data" "jobs s" j]
    by (simp add: findOne_Job_def)
  have wi: "worker_id w = lm_workerId data"
    using w find_Some_mem [of "\<lambda>w. worker_id w = lm_workerId data" "workers s" w]
    by (simp add: findOne_JobWorker_def)
  have fresh: "next_id (map log_id (log_messages s)) \<notin> log_id ` set (log_messages s)"
    using next_id_fresh [of "next_id (map log_id (log_messages s))" "map log_id (log_messages s)"]
    by auto
  show "\<exists>m. createLogMessage data now s = (Inr m, s\<lparr>log_messages := log_messages s @ [m]\<rparr>) \<and>
           log_job m = lm_jobId data \<and> log_job_worker m = lm_workerId data \<and>
           log_text m = lm_text data \<and> log_id m \<notin> log_id ` set (log_messages s) \<and>
           jobs (snd (createLogMessage data now s)) = jobs s \<and>
           workers (snd (createLogMessage data now s)) = workers s"
    using j w ji wi fresh by (simp add: createLogMessage_def Let_def)
qed

theorem createLogMessage_validates_references_witness:
  "(findOne_Job db_two_waiting (lm_jobId \<lparr>lm_jobId = 8, lm_workerId = 1, lm_text = ''a''\<rparr>) = None \<and>
    createLogMessage \<lparr>lm_jobId = 8, lm_workerId = 1, lm_text = ''a''\<rparr> 6 db_two_waiting =
      (Inl (ApolloError ''Job'' 8 (Some ''404'')), db_two_waiting)) \<and>
   (findOne_Job db_two_waiting (lm_jobId \<lparr>lm_jobId = 1, lm_workerId = 9, lm_text = ''b''\<rparr>) \<noteq> None \<and>
    findOne_JobWorker db_two_waiting (lm_workerId \<lparr>lm_jobId = 1, lm_workerId = 9, lm_text = ''b''\<rparr>) = None \<and>
    createLogMessage \<lparr>lm_jobId = 1, lm_workerId = 9, lm_text = ''b''\<rparr> 6 db_two_waiting =
      (Inl (ApolloError ''Worker'' 9 (Some ''404'')), db_two_waiting)) \<and>
   (findOne_Job db_two_waiting (lm_jobId \<lparr>lm_jobId = 2, lm_workerId = 1, lm_text = ''c''\<rparr>) \<noteq> None \<and>
    findOne_JobWorker db_two_waiting (lm_workerId \<lparr>lm_jobId = 2, lm_workerId = 1, lm_text = ''c''\<rparr>) \<noteq> None \<and>
    (\<exists>m. createLogMessage \<lparr>lm_jobId = 2, lm_workerId = 1, lm_text = ''c''\<rparr> 6 db_two_waiting =
            (Inr m, db_two_waiting\<lparr>log_messages := log_messages db_two_waiting @ [m]\<rparr>) \<and>
          log_job m = 2 \<and> log_job_worker m = 1 \<and> log_text m = ''c''))"
proof -
  let ?a = "\<lparr>lm_jobId = 8, lm_workerId = 1, lm_text = ''a''\<rparr>"
  let ?b = "\<lparr>lm_jobId = 1, lm_workerId = 9, lm_text = ''b''\<rparr>"
  let ?c = "\<lparr>lm_jobId = 2, lm_workerId = 1, lm_text = ''c''\<rparr>"
  have a: "findOne_Job db_two_waiting (lm_jobId ?a) = None"
    by (simp add: findOne_Job_def example_defs)
  have b: "findOne_Job db_two_waiting (lm_jobId ?b) \<noteq> None \<and>
           findOne_JobWorker db_two_waiting (lm_workerId ?b) = None"
    by (simp add: findOne_Job_def findOne_JobWorker_def example_defs)
  have c: "findOne_Job db_two_waiting (lm_jobId ?c) \<noteq> None \<and>
           findOne_JobWorker db_two_waiting (lm_workerId ?c) \<noteq> None"
    by (simp add: findOne_Job_def findOne_JobWorker_def example_defs)
  have ra: "createLogMessage ?a 6 db_two_waiting =
              (Inl (ApolloError ''Job'' 8 (Some ''404'')), db_two_waiting)"
    using a createLogMessage_validates_references [of db_two_waiting ?a 6] by simp
  have rb: "createLogMessage ?b 6 db_two_waiting =
              (Inl (ApolloError ''Worker'' 9 (Some ''404'')), db_two_waiting)"
    using b createLogMessage_validates_references [of db_two_waiting ?b 6] by simp
  have rc: "\<exists>m. createLogMessage ?c 6 db_two_waiting =
                  (Inr m, db_two_waiting\<lparr>log_messages := log_messages db_two_waiting @ [m]\<rparr>) \<and>
                log_job m = 2 \<and> log_job_worker m = 1 \<and> log_text m = ''c''"
    using c createLogMessage_validates_references [of db_two_waiting ?c 6] by auto
  show ?thesis using a b c ra rb rc by blast
qed

text \<open>
  Claim C10. When both the job and the worker of \<open>createLogMessage\<close> are missing, the
  error names the job: the test of the job comes first in the source.
\<close>

theorem createLogMessage_both_missing_names_job:
  assumes "findOne_Job s (lm_jobId data) = None"
    and "findOne_JobWorker s (lm_workerId data) = None"
  shows "createLogMessage data now s =
           (Inl (ApolloError ''Job'' (lm_jobId data) (Some ''404'')), s)"
  using assms by (simp add: createLogMessage_def)

theorem createLogMessage_both_missing_names_job_witness:
  "findOne_Job db_two_waiting (lm_jobId \<lparr>lm_jobId = 8, lm_workerId = 9, lm_text = ''hi''\<rparr>) = None \<and>
   findOne_JobWorker db_two_waiting (lm_workerId \<lparr>lm_jobId = 8, lm_workerId = 9, lm_text = ''hi''\<rparr>) = None \<and>
   createLogMessage \<lparr>lm_jobId = 8, lm_workerId = 9, lm_text = ''hi''\<rparr> 6 db_two_waiting =
     (Inl (ApolloError ''Job'' 8 (Some ''404'')), db_two_waiting)"
proof -
  let ?d = "\<lparr>lm_jobId = 8, lm_workerId = 9, lm_text = ''hi''\<rparr>"
  have h1: "findOne_Job db_two_waiting (lm_jobId ?d) = None"
    by (simp add: findOne_Job_def example_defs)
  have h2: "findOne_JobWorker db_two_waiting (lm_workerId ?d) = None"
    by (simp add: findOne_JobWorker_def example_defs)
  show ?thesis
    using h1 h2 createLogMessage_both_missing_names_job [OF h1 h2, of 6] by simp
qed

section \<open>The lifecycle of a job\<close>

text \<open>
  Claim C3. Every request of the resolver, on a database with ascending job keys, keeps
  the keys ascending and keeps every job; the job with the same key afterwards has the
  same priority and input payload, and its status is the old one or the next one along
  \<open>waiting \<rightarrow> running \<rightarrow> finished\<close>. If every job had an owner exactly when running or
  finished, every job still has.
\<close>

theorem resolve_preserves_job_invariants:
  assumes "ids_ascending s"
  shows "ids_ascending (resolve rq now s) \<and>
         (\<forall>j\<in>set (jobs s). \<exists>j'\<in>set (jobs (resolve rq now s)). job_id j' = job_id j) \<and>
         (\<forall>j\<in>set (jobs s). \<forall>j'\<in>set (jobs (resolve rq now s)).
            job_id j' = job_id j \<longrightarrow>
              status_step (status j) (status j') \<and> priority j' = priority j \<and>
              inData j' = inData j) \<and>
         ((\<forall>j\<in>set (jobs s). owner_matches_status j) \<longrightarrow>
          (\<forall>j'\<in>set (jobs (resolve rq now s)). owner_matches_status j'))"
proof (intro conjI ballI impI)
  show "ids_ascending (resolve rq now s)"
    using assms by (rule resolve_ids_ascending)
next
  fix j assume "j \<in> set (jobs s)"
  then show "\<exists>j'\<in>set (jobs (resolve rq now s)). job_id j' = job_id j"
    by (rule resolve_keeps_jobs)
next
  fix j j'
  assume "j \<in> set (jobs s)" "j' \<in> set (jobs (resolve rq now s))" "job_id j' = job_id j"
  with assms have step: "status_step (status j) (status j') \<and> priority j' = priority j \<and>
         inData j' = inData j \<and> job_name j' = job_name j \<and> job_createdAt j' = job_createdAt j"
    by (rule resolve_job_step)
  from step show "status_step (status j) (status j')" by simp
  from step show "priority j' = priority j" by simp
  from step show "inData j' = inData j" by simp
next
  fix j'
  assume "\<forall>j\<in>set (jobs s). owner_matches_status j" "j' \<in> set (jobs (resolve rq now s))"
  then show "owner_matches_status j'" by (rule resolve_owner_matches_status)
qed

theorem resolve_preserves_job_invariants_witness:
  "ids_ascending db_two_waiting \<and>
   \<not> (\<exists>j\<in>set (jobs db_two_waiting). \<not> owner_matches_status j) \<and>
   job_build \<in> set (jobs db_two_waiting) \<and>
   (\<exists>j'\<in>set (jobs (resolve (GetJob \<lparr>gj_workerId = 1\<rparr>) 4 db_two_waiting)).
      job_id j' = job_id job_build \<and> status_step (status job_build) (status j') \<and>
      priority j' = priority job_build \<and> inData j' = inData job_build \<and>
      owner_matches_status j')"
proof -
  let ?s' = "resolve (GetJob \<lparr>gj_workerId = 1\<rparr>) 4 db_two_waiting"
  have h1: "ids_ascending db_two_waiting"
    by (simp add: ids_ascending_def example_defs)
  have h2: "\<forall>j\<in>set (jobs db_two_waiting). owner_matches_status j"
    by (simp add: owner_matches_status_def example_defs)
  have h3: "job_build \<in> set (jobs db_two_waiting)"
    by (simp add: example_defs)
  note inv = resolve_preserves_job_invariants [OF h1, of "GetJob \<lparr>gj_workerId = 1\<rparr>" 4]
  from inv h3 obtain j' where j': "j' \<in> set (jobs ?s')" "job_id j' = job_id job_build"
    by blast
  from inv h3 j' have "status_step (status job_build) (status j') \<and>
      priority j' = priority job_build \<and> inData j' = inData job_build"
    by blast
  moreover from inv h2 j' have "owner_matches_status j'" by blast
  ultimately show ?thesis using h1 h2 h3 j' by blast
qed

text \<open>
  Claim C8, as stated, fails: the resolver has no operation that completes a job. In
  \<open>db_none_waiting\<close> both jobs are running, and no request at all leaves a job
  \<open>finished\<close> or with an output payload.
\<close>

theorem no_request_completes_job_counterexample:
  "\<not> (\<exists>rq now. \<exists>j\<in>set (jobs (resolve rq now db_none_waiting)).
         status j = finished \<or> outData j \<noteq> None)"
proof -
  have "\<forall>j\<in>set (jobs db_none_waiting). status j \<noteq> finished \<and> outData j = None"
    by (simp add: example_defs db_none_waiting_def)
  then show ?thesis using resolve_never_finishes [of db_none_waiting] by auto
qed

text \<open>
  Claim C8, amended. No operation of the resolver moves a job to \<open>finished\<close> or records
  \<open>outData\<close>: in every database reachable from the empty one, every job is waiting or
  running and has no output payload.
\<close>

theorem reachable_jobs_never_finished:
  assumes "reachable s"
  shows "\<forall>j\<in>set (jobs s). status j \<noteq> finished \<and> outData j = None"
  using assms
proof (induction rule: reachable.induct)
  case reachable_empty
  show ?case by (simp add: empty_db_def)
next
  case (reachable_resolve s rq now)
  then show ?case using resolve_never_finishes [of s _ rq now] by blast
qed

theorem reachable_jobs_never_finished_witness:
  "reachable db_none_waiting \<and>
   \<not> (\<exists>j\<in>set (jobs db_none_waiting). status j = finished \<or> outData j \<noteq> None)"
proof -
  have "reachable (run requests_two_waiting empty_db)"
    using reachable_empty by (rule run_reachable)
  then have "reachable db_two_waiting"
    by (simp only: run_requests_two_waiting)
  then have "reachable (run [(GetJob \<lparr>gj_workerId = 1\<rparr>, 4), (GetJob \<lparr>gj_workerId = 1\<rparr>, 5)]
                          db_two_waiting)"
    by (rule run_reachable)
  then have r: "reachable db_none_waiting"
    by (simp only: run_claims_none_waiting)
  show ?thesis using r reachable_jobs_never_finished [OF r] by auto
qed

section \<open>Creating a job\<close>

text \<open>
  Claim C9 fails on the code for a supplied priority of 0: \<open>data.priority || 1000\<close>
  takes 0 for a missing value, and the job is created with priority 1000.
\<close>

theorem createJob_priority_zero:
  "priority (fst (createJob \<lparr>cj_name = ''build'', cj_inData = None, cj_priority = Some 0\<rparr> now s))
     = 1000"
  by (simp add: createJob_def or_default_def Let_def)


end
